theory Spec2Isabelle
  imports Complex_Main "HOL-Library.AList"
begin

section \<open>Data model\<close>

text \<open>
  The rating engine of \<^verbatim>\<open>phase3_dixon_coles.py\<close>. Python floats are idealised as
  real numbers (no rounding, overflow or underflow), Python dictionaries are association
  lists in insertion order with distinct keys, dates are day numbers, and goal counts are
  natural numbers.
\<close>

type_synonym team = string

text \<open>A row of the training query: fixture id, home team, away team, home goals,
  away goals, match date.\<close>

type_synonym match = "string \<times> team \<times> team \<times> nat \<times> nat \<times> int"

text \<open>The per-team accumulator \<^verbatim>\<open>team_stats[team]\<close> of \<^verbatim>\<open>fit\<close>.\<close>

record team_stat =
  goals_scored :: real
  goals_conceded :: real
  weighted_matches :: real

record DixonColesModel =
  xi :: real
  home_advantage :: real
  rho :: real
  team_attack :: "(team \<times> real) list"
  team_defense :: "(team \<times> real) list"
  teams :: "team set"

text \<open>The dictionary returned by \<^verbatim>\<open>predict\<close>.\<close>

record prediction =
  home_win_prob :: real
  draw_prob :: real
  away_win_prob :: real
  expected_home_goals :: real
  expected_away_goals :: real
  home_attack :: real
  home_defense :: real
  away_attack :: real
  away_defense :: real
  rho_used :: real
  xi_used :: real

text \<open>The exceptions the modelled code can raise. \<^verbatim>\<open>NonFinite\<close> is not a Python
  exception: it marks a division by a numpy zero, whose result (inf or nan) has no
  counterpart among the reals.\<close>

datatype error = ValueError | ZeroDivisionError | KeyError | NonFinite

section \<open>Operations\<close>

text \<open>\<^verbatim>\<open>DixonColesModel.__init__\<close>; the defaults are 0.0065, 0.3 and -0.13.\<close>

definition DixonColesModel_init :: "real \<Rightarrow> real \<Rightarrow> real \<Rightarrow> DixonColesModel" where
  "DixonColesModel_init xi0 home_advantage0 rho0 =
     \<lparr>xi = xi0, home_advantage = home_advantage0, rho = rho0,
      team_attack = [], team_defense = [], teams = {}\<rparr>"

text \<open>The model that \<^verbatim>\<open>main\<close> constructs: the default parameters, no ratings yet.\<close>

definition default_model :: DixonColesModel where
  "default_model = DixonColesModel_init (65 / 10000) (3 / 10) (- (13 / 100))"

text \<open>\<^verbatim>\<open>d.get(k, default)\<close>.\<close>

definition dict_get :: "('k \<times> 'v) list \<Rightarrow> 'k \<Rightarrow> 'v \<Rightarrow> 'v" where
  "dict_get d k dflt = (case map_of d k of Some v \<Rightarrow> v | None \<Rightarrow> dflt)"

text \<open>\<^verbatim>\<open>exp(-xi * days_difference)\<close>\<close>

definition time_decay_weight :: "DixonColesModel \<Rightarrow> int \<Rightarrow> int \<Rightarrow> real" where
  "time_decay_weight self match_date current_date =
     (let days_diff = current_date - match_date
      in exp (- xi self * real_of_int days_diff))"

definition tau_correction :: "DixonColesModel \<Rightarrow> nat \<Rightarrow> nat \<Rightarrow> real \<Rightarrow> real \<Rightarrow> real" where
  "tau_correction self home_goals away_goals lambda_h mu_a =
     (if home_goals = 0 \<and> away_goals = 0 then 1 - lambda_h * mu_a * rho self
      else if home_goals = 0 \<and> away_goals = 1 then 1 + lambda_h * rho self
      else if home_goals = 1 \<and> away_goals = 0 then 1 + mu_a * rho self
      else if home_goals = 1 \<and> away_goals = 1 then 1 - rho self
      else 1)"

subsection \<open>predict\<close>

text \<open>The product of the two Poisson probabilities, \<^verbatim>\<open>poisson_prob\<close> in the inner loop.\<close>

definition poisson_prob :: "real \<Rightarrow> real \<Rightarrow> nat \<Rightarrow> nat \<Rightarrow> real" where
  "poisson_prob lambda_h mu_a i j =
     (exp (- lambda_h) * lambda_h ^ i / fact i) * (exp (- mu_a) * mu_a ^ j / fact j)"

text \<open>The body of the inner loop: the three running bucket sums are the accumulator.\<close>

definition score_step ::
  "DixonColesModel \<Rightarrow> real \<Rightarrow> real \<Rightarrow> nat \<Rightarrow> nat \<Rightarrow> real \<times> real \<times> real \<Rightarrow> real \<times> real \<times> real" where
  "score_step self lambda_h mu_a i j acc =
     (case acc of (hw, dr, aw) \<Rightarrow>
        let tau = tau_correction self i j lambda_h mu_a;
            score_prob = poisson_prob lambda_h mu_a i j * tau
        in if i > j then (hw + score_prob, dr, aw)
           else if i = j then (hw, dr + score_prob, aw)
           else (hw, dr, aw + score_prob))"

text \<open>The two nested \<^verbatim>\<open>for ... in range(max_goals + 1)\<close> loops.\<close>

definition score_grid ::
  "DixonColesModel \<Rightarrow> real \<Rightarrow> real \<Rightarrow> nat \<Rightarrow> real \<times> real \<times> real" where
  "score_grid self lambda_h mu_a max_goals =
     fold (\<lambda>i. fold (\<lambda>j. score_step self lambda_h mu_a i j) [0..<max_goals + 1])
       [0..<max_goals + 1] (0, 0, 0)"

text \<open>The guarded renormalisation at the end of \<^verbatim>\<open>predict\<close>.\<close>

definition normalize_buckets :: "real \<times> real \<times> real \<Rightarrow> real \<times> real \<times> real" where
  "normalize_buckets b =
     (case b of (hw, dr, aw) \<Rightarrow>
        let total = hw + dr + aw
        in if total > 0 then (hw / total, dr / total, aw / total) else (hw, dr, aw))"

text \<open>\<^verbatim>\<open>DixonColesModel.predict\<close>. It has no \<^verbatim>\<open>raise\<close> and every operation in it is
  defined on the reals, so the result is a prediction and not a sum.\<close>

definition predict :: "DixonColesModel \<Rightarrow> team \<Rightarrow> team \<Rightarrow> prediction" where
  "predict self home away =
     (let h_attack = dict_get (team_attack self) home 1;
          h_defense = dict_get (team_defense self) home 1;
          a_attack = dict_get (team_attack self) away 1;
          a_defense = dict_get (team_defense self) away 1;
          home_attack_adj = h_attack * (1 + home_advantage self);
          lambda_h = home_attack_adj * a_defense;
          mu_a = a_attack * h_defense;
          max_goals = 6
      in case normalize_buckets (score_grid self lambda_h mu_a max_goals) of
           (hw, dr, aw) \<Rightarrow>
             \<lparr>home_win_prob = hw, draw_prob = dr, away_win_prob = aw,
              expected_home_goals = lambda_h, expected_away_goals = mu_a,
              home_attack = h_attack, home_defense = h_defense,
              away_attack = a_attack, away_defense = a_defense,
              rho_used = rho self, xi_used = xi self\<rparr>)"

subsection \<open>calculate_brier_score\<close>

text \<open>\<^verbatim>\<open>zip\<close> stops at the shorter of the predicted tuple and the one-hot tuple; a result
  other than H, D and A raises ValueError.\<close>

definition calculate_brier_score :: "real list \<Rightarrow> string \<Rightarrow> error + real" where
  "calculate_brier_score predicted actual_result =
     (if actual_result = ''H'' then
        Inr (sum_list (map (\<lambda>(p, a). (p - a)\<^sup>2) (zip predicted [1, 0, 0])) / 3)
      else if actual_result = ''D'' then
        Inr (sum_list (map (\<lambda>(p, a). (p - a)\<^sup>2) (zip predicted [0, 1, 0])) / 3)
      else if actual_result = ''A'' then
        Inr (sum_list (map (\<lambda>(p, a). (p - a)\<^sup>2) (zip predicted [0, 0, 1])) / 3)
      else Inl ValueError)"

subsection \<open>get_training_data\<close>

text \<open>\<^verbatim>\<open>get_training_data\<close>, given the rows that \<^verbatim>\<open>cursor.fetchall()\<close> returned for
  the training query: fewer than 100 rows give \<^verbatim>\<open>None\<close>.\<close>

definition get_training_data :: "match list \<Rightarrow> match list option" where
  "get_training_data rows = (if length rows < 100 then None else Some rows)"

subsection \<open>fit\<close>

text \<open>\<^verbatim>\<open>match[5]\<close>\<close>

definition match_date :: "match \<Rightarrow> int" where
  "match_date mt = (case mt of (fixture_id, home, away, hg, ag, mdate) \<Rightarrow> mdate)"

definition zero_stat :: team_stat where
  "zero_stat = \<lparr>goals_scored = 0, goals_conceded = 0, weighted_matches = 0\<rparr>"

text \<open>\<^verbatim>\<open>if team not in team_stats: team_stats[team] = {...}\<close>\<close>

definition init_team :: "team \<Rightarrow> (team \<times> team_stat) list \<Rightarrow> (team \<times> team_stat) list" where
  "init_team t st = (if map_of st t = None then AList.update t zero_stat st else st)"

text \<open>The three \<^verbatim>\<open>+=\<close> on the entry of one team, which is present by then.\<close>

definition add_stats ::
  "team \<Rightarrow> real \<Rightarrow> real \<Rightarrow> real \<Rightarrow> (team \<times> team_stat) list \<Rightarrow> (team \<times> team_stat) list" where
  "add_stats t scored conceded weight st =
     AList.map_entry t
       (\<lambda>s. \<lparr>goals_scored = goals_scored s + scored,
             goals_conceded = goals_conceded s + conceded,
             weighted_matches = weighted_matches s + weight\<rparr>) st"

text \<open>The body of the first loop of \<^verbatim>\<open>fit\<close>, on \<^verbatim>\<open>team_stats\<close>.\<close>

definition fit_match ::
  "DixonColesModel \<Rightarrow> int \<Rightarrow> match \<Rightarrow> (team \<times> team_stat) list \<Rightarrow> (team \<times> team_stat) list" where
  "fit_match self current_date mt st =
     (case mt of (fixture_id, home, away, hg, ag, mdate) \<Rightarrow>
        let weight = time_decay_weight self mdate current_date;
            st1 = init_team home st;
            st2 = init_team away st1;
            st3 = add_stats home (real hg * weight) (real ag * weight) weight st2
        in add_stats away (real ag * weight) (real hg * weight) weight st3)"

text \<open>The same loop, on \<^verbatim>\<open>self.teams\<close>.\<close>

definition add_teams :: "match \<Rightarrow> team set \<Rightarrow> team set" where
  "add_teams mt ts =
     (case mt of (fixture_id, home, away, hg, ag, mdate) \<Rightarrow> insert away (insert home ts))"

text \<open>The second loop: attack and defence of every team with a positive weighted match
  count. Dividing by a league average of zero raises.\<close>

fun fit_ratings ::
  "real \<Rightarrow> (team \<times> team_stat) list \<Rightarrow> (team \<times> real) list \<times> (team \<times> real) list \<Rightarrow>
   error + (team \<times> real) list \<times> (team \<times> real) list" where
  "fit_ratings league_avg_goals [] (att, dfn) = Inr (att, dfn)"
| "fit_ratings league_avg_goals ((t, stats) # rest) (att, dfn) =
     (if weighted_matches stats > 0 then
        let avg_scored = goals_scored stats / weighted_matches stats;
            avg_conceded = goals_conceded stats / weighted_matches stats
        in if league_avg_goals = 0 then Inl ZeroDivisionError
           else
             let attack = avg_scored / league_avg_goals;
                 defense = avg_conceded / league_avg_goals
             in fit_ratings league_avg_goals rest
                  (AList.update t attack att, AList.update t defense dfn)
      else fit_ratings league_avg_goals rest (att, dfn))"

text \<open>The third loop, over the keys of \<^verbatim>\<open>self.team_attack\<close>: both ratings of the team
  are divided by the mean attack, a numpy float. A mean of zero makes the first quotient
  inf or nan, where the model stops with \<^verbatim>\<open>NonFinite\<close>; a key missing from
  \<^verbatim>\<open>self.team_defense\<close> raises.\<close>

fun normalize_loop ::
  "real \<Rightarrow> team list \<Rightarrow> (team \<times> real) list \<times> (team \<times> real) list \<Rightarrow>
   error + (team \<times> real) list \<times> (team \<times> real) list" where
  "normalize_loop avg_attack [] (att, dfn) = Inr (att, dfn)"
| "normalize_loop avg_attack (t # ts) (att, dfn) =
     (if avg_attack = 0 then Inl NonFinite
      else case map_of dfn t of
             None \<Rightarrow> Inl KeyError
           | Some d \<Rightarrow>
               normalize_loop avg_attack ts
                 (AList.map_entry t (\<lambda>a. a / avg_attack) att,
                  AList.map_entry t (\<lambda>d. d / avg_attack) dfn))"

text \<open>\<^verbatim>\<open>max(match[5] for match in matches)\<close> when no reference date is given.\<close>

definition reference_date :: "match list \<Rightarrow> int option \<Rightarrow> error + int" where
  "reference_date matches current_date =
     (case current_date of
        Some d \<Rightarrow> Inr d
      | None \<Rightarrow>
          (case matches of
             [] \<Rightarrow> Inl ValueError
           | mt # rest \<Rightarrow> Inr (fold (\<lambda>x acc. max (match_date x) acc) rest (match_date mt))))"

text \<open>The weighted league average of goals per team and match, 1.5 when no weight was
  collected.\<close>

definition league_avg :: "(team \<times> team_stat) list \<Rightarrow> real" where
  "league_avg team_stats =
     (let total_weighted_goals = sum_list (map (\<lambda>(t, s). goals_scored s) team_stats);
          total_weighted_matches = sum_list (map (\<lambda>(t, s). weighted_matches s) team_stats)
      in if total_weighted_matches > 0 then total_weighted_goals / total_weighted_matches
         else 15 / 10)"

text \<open>\<^verbatim>\<open>np.mean(list(self.team_attack.values())) if self.team_attack else 1.0\<close>\<close>

definition mean_attack :: "(team \<times> real) list \<Rightarrow> real" where
  "mean_attack att = (if att \<noteq> [] then sum_list (map snd att) / real (length att) else 1)"

text \<open>\<^verbatim>\<open>DixonColesModel.fit\<close>: the reference date, the statistics of the match list, the
  ratings of its teams written into the dictionaries of the instance, and the division
  of every stored rating by the mean attack. An exception is the result \<open>Inl\<close>; the
  instance as the exception leaves it is not part of the result. A normal return is the
  updated instance.\<close>

definition fit :: "DixonColesModel \<Rightarrow> match list \<Rightarrow> int option \<Rightarrow> error + DixonColesModel" where
  "fit self matches current_date =
     (case reference_date matches current_date of
        Inl e \<Rightarrow> Inl e
      | Inr cd \<Rightarrow>
          let team_stats = fold (fit_match self cd) matches [];
              league_avg_goals = league_avg team_stats
          in case fit_ratings league_avg_goals team_stats (team_attack self, team_defense self) of
               Inl e \<Rightarrow> Inl e
             | Inr (att, dfn) \<Rightarrow>
                 (case normalize_loop (mean_attack att) (map fst att) (att, dfn) of
                    Inl e \<Rightarrow> Inl e
                  | Inr (att', dfn') \<Rightarrow>
                      Inr (self\<lparr>team_attack := att', team_defense := dfn',
                                teams := fold add_teams matches (teams self)\<rparr>)))"

section \<open>Auxiliary notions for the proofs\<close>

text \<open>One term of the scoreline grid: the value added to a bucket in the inner loop.\<close>

definition score_prob :: "DixonColesModel \<Rightarrow> real \<Rightarrow> real \<Rightarrow> nat \<Rightarrow> nat \<Rightarrow> real" where
  "score_prob self l m i j = poisson_prob l m i j * tau_correction self i j l m"

text \<open>The same term without the two exponential factors.\<close>

definition score_weight :: "DixonColesModel \<Rightarrow> real \<Rightarrow> real \<Rightarrow> nat \<Rightarrow> nat \<Rightarrow> real" where
  "score_weight self l m i j = l ^ i / fact i * (m ^ j / fact j) * tau_correction self i j l m"

definition bucket_total :: "real \<times> real \<times> real \<Rightarrow> real" where
  "bucket_total b = (case b of (hw, dr, aw) \<Rightarrow> hw + dr + aw)"

text \<open>The exponential series cut off after the term of degree 6, the largest goal count
  of the grid.\<close>

definition texp :: "real \<Rightarrow> real" where
  "texp x = (\<Sum>i<7. x ^ i / fact i)"




subsection \<open>Notions about fitting\<close>

text \<open>An accumulator entry that has seen at least one match.\<close>

definition stat_ok :: "team_stat \<Rightarrow> bool" where
  "stat_ok s = (0 < weighted_matches s \<and> 0 \<le> goals_scored s \<and> 0 \<le> goals_conceded s)"

text \<open>The dictionary \<^verbatim>\<open>team_stats\<close> has distinct keys, and each entry has seen a match.\<close>

definition stats_inv :: "(team \<times> team_stat) list \<Rightarrow> bool" where
  "stats_inv st = (distinct (map fst st) \<and> (\<forall>t s. map_of st t = Some s \<longrightarrow> stat_ok s))"

text \<open>The team names of a match list, home before away.\<close>

definition match_teams :: "match list \<Rightarrow> team list" where
  "match_teams ms = concat (map (\<lambda>(fixture_id, home, away, hg, ag, mdate). [home, away]) ms)"

text \<open>The weighted number of goals of a match list.\<close>

definition weighted_goals :: "DixonColesModel \<Rightarrow> int \<Rightarrow> match list \<Rightarrow> real" where
  "weighted_goals self cd ms =
     (\<Sum>(fixture_id, home, away, hg, ag, mdate)\<leftarrow>ms. (real hg + real ag) * time_decay_weight self mdate cd)"

text \<open>No goal was scored in any match of the list.\<close>

definition no_goals :: "match list \<Rightarrow> bool" where
  "no_goals ms = list_all (\<lambda>(fixture_id, home, away, hg, ag, mdate). hg = 0 \<and> ag = 0) ms"

text \<open>The attack values before the division by their mean.\<close>

definition raw_attack :: "real \<Rightarrow> (team \<times> team_stat) list \<Rightarrow> (team \<times> real) list" where
  "raw_attack la st = map (\<lambda>(t, s). (t, goals_scored s / weighted_matches s / la)) st"

text \<open>The defence values before the division by the mean attack.\<close>

definition raw_defense :: "real \<Rightarrow> (team \<times> team_stat) list \<Rightarrow> (team \<times> real) list" where
  "raw_defense la st = map (\<lambda>(t, s). (t, goals_conceded s / weighted_matches s / la)) st"

text \<open>Storing a list of entries into a dictionary, one after the other.\<close>

definition upd_all :: "('k \<times> 'v) list \<Rightarrow> ('k \<times> 'v) list \<Rightarrow> ('k \<times> 'v) list" where
  "upd_all kvs al = fold (\<lambda>(k, v). AList.update k v) kvs al"

text \<open>Every value of a dictionary divided by the same number.\<close>

definition scale_ratings :: "real \<Rightarrow> (team \<times> real) list \<Rightarrow> (team \<times> real) list" where
  "scale_ratings avg al = map (\<lambda>(k, v). (k, v / avg)) al"

section \<open>Concrete inputs\<close>

text \<open>Two matches on one day: a 19-1 win of A over B and a goalless draw of C and D;
  and the model that \<^const>\<open>fit\<close> makes of them with the default parameters.\<close>

definition lopsided_matches :: "match list" where
  "lopsided_matches = [(''f1'', ''A'', ''B'', 19, 1, 0), (''f2'', ''C'', ''D'', 0, 0, 0)]"

definition lopsided_model :: DixonColesModel where
  "lopsided_model = default_model
     \<lparr>team_attack := [(''A'', 19 / 5), (''B'', 1 / 5), (''C'', 0), (''D'', 0)],
      team_defense := [(''A'', 1 / 5), (''B'', 19 / 5), (''C'', 0), (''D'', 0)],
      teams := {''A'', ''B'', ''C'', ''D''}\<rparr>"

text \<open>Two matches between A and B on one day, 2-1 and 1-1, and their fitted model.\<close>

definition sample_matches :: "match list" where
  "sample_matches = [(''f1'', ''A'', ''B'', 2, 1, 0), (''f2'', ''B'', ''A'', 1, 1, 0)]"

definition sample_model :: DixonColesModel where
  "sample_model = default_model
     \<lparr>team_attack := [(''A'', 6 / 5), (''B'', 4 / 5)],
      team_defense := [(''A'', 4 / 5), (''B'', 6 / 5)],
      teams := {''A'', ''B''}\<rparr>"

text \<open>Fifty matches on one day, each a 1-0 win of A over B, with distinct fixture ids.\<close>

definition fifty_matches :: "match list" where
  "fifty_matches = map (\<lambda>k. (''fx'' @ replicate k CHR ''i'', ''A'', ''B'', 1, 0, 0)) [0..<50]"

text \<open>A single goalless match.\<close>

definition goalless_matches :: "match list" where
  "goalless_matches = [(''f1'', ''A'', ''B'', 0, 0, 0)]"






section \<open>The correlation correction\<close>

text \<open>
  C3. For all non-negative integers \<open>i\<close>, \<open>j\<close> and all reals \<open>lambda\<close>, \<open>mu\<close>, \<open>rho\<close>, the
  tau correction is \<open>1 - lambda * mu * rho\<close> at (0,0), \<open>1 + lambda * rho\<close> at (0,1),
  \<open>1 + mu * rho\<close> at (1,0), \<open>1 - rho\<close> at (1,1) and 1 at every other scoreline; hence with
  \<open>rho = 0\<close> it is 1 at every scoreline.
\<close>

theorem tau_correction_table:
  "tau_correction self 0 0 l m = 1 - l * m * rho self \<and>
   tau_correction self 0 1 l m = 1 + l * rho self \<and>
   tau_correction self 1 0 l m = 1 + m * rho self \<and>
   tau_correction self 1 1 l m = 1 - rho self \<and>
   (1 < i \<or> 1 < j \<longrightarrow> tau_correction self i j l m = 1) \<and>
   (rho self = 0 \<longrightarrow> tau_correction self i j l m = 1)"
  by (auto simp: tau_correction_def)

theorem tau_correction_table_witness:
  "tau_correction (DixonColesModel_init 0 0 0) 0 0 2 3 = 1 - 2 * 3 * rho (DixonColesModel_init 0 0 0) \<and>
   tau_correction (DixonColesModel_init 0 0 0) 0 1 2 3 = 1 + 2 * rho (DixonColesModel_init 0 0 0) \<and>
   tau_correction (DixonColesModel_init 0 0 0) 1 0 2 3 = 1 + 3 * rho (DixonColesModel_init 0 0 0) \<and>
   tau_correction (DixonColesModel_init 0 0 0) 1 1 2 3 = 1 - rho (DixonColesModel_init 0 0 0) \<and>
   ((1::nat) < 2 \<or> (1::nat) < 0) \<and> tau_correction (DixonColesModel_init 0 0 0) 2 0 2 3 = 1 \<and>
   rho (DixonColesModel_init 0 0 0) = 0"
  using tau_correction_table [of "DixonColesModel_init 0 0 0" 2 3 2 0]
  by (simp add: DixonColesModel_init_def)

section \<open>Calibration\<close>

text \<open>
  C9. For every predicted triple and every actual result among H, D and A, the Brier score
  is one third of the sum over the three classes of the squared difference between the
  predicted probability and the one-hot encoding of the result; it is 0 for the call
  (1,0,0) against H and 2/9 for the uniform call against any of the three results.
\<close>

theorem brier_score_formula:
  "calculate_brier_score [p1, p2, p3] ''H'' = Inr (1 / 3 * ((p1 - 1)\<^sup>2 + (p2 - 0)\<^sup>2 + (p3 - 0)\<^sup>2)) \<and>
   calculate_brier_score [p1, p2, p3] ''D'' = Inr (1 / 3 * ((p1 - 0)\<^sup>2 + (p2 - 1)\<^sup>2 + (p3 - 0)\<^sup>2)) \<and>
   calculate_brier_score [p1, p2, p3] ''A'' = Inr (1 / 3 * ((p1 - 0)\<^sup>2 + (p2 - 0)\<^sup>2 + (p3 - 1)\<^sup>2)) \<and>
   calculate_brier_score [1, 0, 0] ''H'' = Inr 0 \<and>
   (r = ''H'' \<or> r = ''D'' \<or> r = ''A'' \<longrightarrow>
      calculate_brier_score [1 / 3, 1 / 3, 1 / 3] r = Inr (2 / 9))"
  by (auto simp: calculate_brier_score_def power2_eq_square)

theorem brier_score_formula_witness:
  "calculate_brier_score [1 / 2, 1 / 4, 1 / 4] ''D'' = Inr (7 / 24) \<and>
   calculate_brier_score [1 / 3, 1 / 3, 1 / 3] ''A'' = Inr (2 / 9)"
  using brier_score_formula [of "1 / 2" "1 / 4" "1 / 4" "''A''"]
  by (simp add: power2_eq_square)

section \<open>Prediction\<close>

subsection \<open>The scoreline grid as sums\<close>

lemma inner_fold:
  "fold (\<lambda>j. score_step self l m i j) [0..<k] (h, d, a) =
     (h + (\<Sum>j<k. if j < i then score_prob self l m i j else 0),
      d + (\<Sum>j<k. if i = j then score_prob self l m i j else 0),
      a + (\<Sum>j<k. if i < j then score_prob self l m i j else 0))"
  by (induction k arbitrary: h d a) (auto simp: score_step_def score_prob_def)

lemma outer_fold:
  "fold (\<lambda>i. fold (\<lambda>j. score_step self l m i j) [0..<k]) [0..<n] (h, d, a) =
     (h + (\<Sum>i<n. \<Sum>j<k. if j < i then score_prob self l m i j else 0),
      d + (\<Sum>i<n. \<Sum>j<k. if i = j then score_prob self l m i j else 0),
      a + (\<Sum>i<n. \<Sum>j<k. if i < j then score_prob self l m i j else 0))"
  by (induction n arbitrary: h d a) (simp_all add: inner_fold)

lemma score_grid_sums:
  "score_grid self l m n =
     ((\<Sum>i<Suc n. \<Sum>j<Suc n. if j < i then score_prob self l m i j else 0),
      (\<Sum>i<Suc n. \<Sum>j<Suc n. if i = j then score_prob self l m i j else 0),
      (\<Sum>i<Suc n. \<Sum>j<Suc n. if i < j then score_prob self l m i j else 0))"
  unfolding score_grid_def using outer_fold[of self l m "n+1" "n+1" 0 0 0] by simp

lemma total_sum:
  "bucket_total (score_grid self l m n) = (\<Sum>i<Suc n. \<Sum>j<Suc n. score_prob self l m i j)"
proof -
  have pt: "\<And>i j. (if j < i then score_prob self l m i j else 0) + (if i = j then score_prob self l m i j else 0)
      + (if i < j then score_prob self l m i j else 0) = score_prob self l m i j"
    by auto
  show ?thesis
    unfolding score_grid_sums bucket_total_def prod.case
    by (simp only: sum.distrib[symmetric] pt)
qed

lemma texp_poly: "texp x = 1 + x + x^2/2 + x^3/6 + x^4/24 + x^5/120 + x^6/720"
  by (simp add: texp_def eval_nat_numeral)

lemma texp_pos: "0 < texp x"
proof -
  have "720 * texp x = (x^3 + 3*x^2 + 6*x + 12)\<^sup>2 + (3*x^2 + 10*x + 12)\<^sup>2 + 80 * (x + 21/10)\<^sup>2 + 396/5"
    unfolding texp_poly by (simp add: power2_eq_square power3_eq_cube power4_eq_xxxx algebra_simps eval_nat_numeral)
  moreover have "0 < (x^3 + 3*x^2 + 6*x + 12)\<^sup>2 + (3*x^2 + 10*x + 12)\<^sup>2 + 80 * (x + 21/10)\<^sup>2 + 396/5"
    by (intro add_nonneg_pos add_nonneg_nonneg mult_nonneg_nonneg zero_le_power2) simp_all
  ultimately show ?thesis by simp
qed

lemma total_closed:
  "(\<Sum>i<7. \<Sum>j<7. score_prob self l m i j) = exp (- l) * exp (- m) * (texp l * texp m)"
  unfolding texp_poly
  apply (simp add: score_prob_def poisson_prob_def tau_correction_def eval_nat_numeral)
  apply (simp add: field_simps)
  done

lemma total_pos: "0 < bucket_total (score_grid self l m 6)"
proof -
  have "bucket_total (score_grid self l m 6) = exp (- l) * exp (- m) * (texp l * texp m)"
    using total_sum[of self l m 6] total_closed[of self l m] by (simp add: eval_nat_numeral)
  then show ?thesis by (simp add: texp_pos)
qed

lemma score_prob_nonneg:
  "0 \<le> l \<Longrightarrow> 0 \<le> m \<Longrightarrow> 0 \<le> tau_correction self i j l m \<Longrightarrow> 0 \<le> score_prob self l m i j"
  by (simp add: score_prob_def poisson_prob_def)

lemma buckets_nonneg:
  assumes "0 \<le> l" "0 \<le> m" "\<forall>i j. 0 \<le> tau_correction self i j l m"
    and "score_grid self l m n = (hw, dr, aw)"
  shows "0 \<le> hw \<and> 0 \<le> dr \<and> 0 \<le> aw"
proof -
  have sp: "0 \<le> score_prob self l m i j" for i j
    using assms(1-3) by (simp add: score_prob_nonneg)
  have "(\<Sum>i<Suc n. \<Sum>j<Suc n. if j < i then score_prob self l m i j else 0) = hw"
    "(\<Sum>i<Suc n. \<Sum>j<Suc n. if i = j then score_prob self l m i j else 0) = dr"
    "(\<Sum>i<Suc n. \<Sum>j<Suc n. if i < j then score_prob self l m i j else 0) = aw"
    using assms(4) unfolding score_grid_sums by (simp_all only: prod.inject)
  moreover have "0 \<le> (\<Sum>i<Suc n. \<Sum>j<Suc n. if j < i then score_prob self l m i j else 0)"
    "0 \<le> (\<Sum>i<Suc n. \<Sum>j<Suc n. if i = j then score_prob self l m i j else 0)"
    "0 \<le> (\<Sum>i<Suc n. \<Sum>j<Suc n. if i < j then score_prob self l m i j else 0)"
    by (intro sum_nonneg; simp only: sp if_split order_refl; blast)+
  ultimately show ?thesis by simp
qed

lemma predict_buckets:
  "(home_win_prob (predict self home away), draw_prob (predict self home away),
    away_win_prob (predict self home away)) =
   normalize_buckets (score_grid self (expected_home_goals (predict self home away))
     (expected_away_goals (predict self home away)) 6)"
  by (simp add: predict_def Let_def split: prod.split)

lemma normalize_pos:
  "0 < hw + dr + aw \<Longrightarrow>
   normalize_buckets (hw, dr, aw) = (hw / (hw + dr + aw), dr / (hw + dr + aw), aw / (hw + dr + aw))"
  by (simp add: normalize_buckets_def Let_def)

lemma predict_ratio:
  assumes "score_grid self (expected_home_goals (predict self home away))
     (expected_away_goals (predict self home away)) 6 = (hw, dr, aw)"
  shows "0 < hw + dr + aw"
    and "home_win_prob (predict self home away) = hw / (hw + dr + aw)"
    and "draw_prob (predict self home away) = dr / (hw + dr + aw)"
    and "away_win_prob (predict self home away) = aw / (hw + dr + aw)"
proof -
  show pos: "0 < hw + dr + aw"
    using total_pos[of self "expected_home_goals (predict self home away)"
        "expected_away_goals (predict self home away)"] assms
    by (simp add: bucket_total_def)
  show "home_win_prob (predict self home away) = hw / (hw + dr + aw)"
    and "draw_prob (predict self home away) = dr / (hw + dr + aw)"
    and "away_win_prob (predict self home away) = aw / (hw + dr + aw)"
    using predict_buckets[of self home away] assms normalize_pos[OF pos] by simp_all
qed

subsection \<open>Two fitted models\<close>

lemmas fit_eval = fit_def reference_date_def match_date_def fit_match_def init_team_def add_stats_def
  zero_stat_def time_decay_weight_def league_avg_def mean_attack_def add_teams_def

lemma fit_lopsided: "fit default_model lopsided_matches None = Inr lopsided_model"
  by (simp add: lopsided_matches_def lopsided_model_def fit_eval default_model_def DixonColesModel_init_def insert_commute)

lemma score_prob_weight:
  "score_prob self l m i j = exp (- l) * exp (- m) * score_weight self l m i j"
  by (simp add: score_prob_def score_weight_def poisson_prob_def)

lemma away_bucket_weight:
  "(\<Sum>i<n. \<Sum>j<k. if i < j then score_prob self l m i j else 0) =
   exp (- l) * exp (- m) * (\<Sum>i<n. \<Sum>j<k. if i < j then score_weight self l m i j else 0)"
  unfolding sum_distrib_left
  by (intro sum.cong refl) (simp add: score_prob_weight)

lemma lopsided_expected:
  "expected_home_goals (predict lopsided_model ''A'' ''B'') = 4693 / 250"
  "expected_away_goals (predict lopsided_model ''A'' ''B'') = 1 / 25"
  by (simp_all add: predict_def lopsided_model_def default_model_def DixonColesModel_init_def dict_get_def Let_def split: prod.split)

lemma lopsided_away_weight:
  "(\<Sum>i<7. \<Sum>j<7. if i < j then score_weight lopsided_model (4693 / 250) (1 / 25) i j else 0) < 0"
  by (simp add: score_weight_def tau_correction_def lopsided_model_def default_model_def
      DixonColesModel_init_def eval_nat_numeral)

lemma fit_sample: "fit default_model sample_matches None = Inr sample_model"
  by (simp add: sample_matches_def sample_model_def fit_eval default_model_def DixonColesModel_init_def insert_commute)

lemma sample_expected:
  "expected_home_goals (predict sample_model ''A'' ''B'') = 234 / 125"
  "expected_away_goals (predict sample_model ''A'' ''B'') = 16 / 25"
  by (simp_all add: predict_def sample_model_def default_model_def DixonColesModel_init_def dict_get_def Let_def split: prod.split)

lemma sample_tau: "0 \<le> tau_correction sample_model i j (234 / 125) (16 / 25)"
  by (simp add: tau_correction_def sample_model_def default_model_def DixonColesModel_init_def)

text \<open>
  C1 (as amended). For every model and every pair of team names the three probabilities
  returned by \<^verbatim>\<open>predict\<close> sum to 1; when both expected goal counts and every tau
  correction at them are non-negative, each of the three lies in [0,1].
\<close>

theorem predict_probabilities:
  "home_win_prob (predict self home away) + draw_prob (predict self home away) +
     away_win_prob (predict self home away) = 1 \<and>
   (0 \<le> expected_home_goals (predict self home away) \<and>
    0 \<le> expected_away_goals (predict self home away) \<and>
    (\<forall>i j. 0 \<le> tau_correction self i j (expected_home_goals (predict self home away))
                (expected_away_goals (predict self home away))) \<longrightarrow>
    0 \<le> home_win_prob (predict self home away) \<and> home_win_prob (predict self home away) \<le> 1 \<and>
    0 \<le> draw_prob (predict self home away) \<and> draw_prob (predict self home away) \<le> 1 \<and>
    0 \<le> away_win_prob (predict self home away) \<and> away_win_prob (predict self home away) \<le> 1)"
proof -
  obtain hw dr aw where g: "score_grid self (expected_home_goals (predict self home away))
     (expected_away_goals (predict self home away)) 6 = (hw, dr, aw)"
    by (metis prod_cases3)
  note r = predict_ratio[OF g]
  have sum1: "home_win_prob (predict self home away) + draw_prob (predict self home away) +
     away_win_prob (predict self home away) = 1"
    using r(1) by (simp add: r(2-4) add_divide_distrib[symmetric])
  have rng: "0 \<le> home_win_prob (predict self home away) \<and> home_win_prob (predict self home away) \<le> 1 \<and>
    0 \<le> draw_prob (predict self home away) \<and> draw_prob (predict self home away) \<le> 1 \<and>
    0 \<le> away_win_prob (predict self home away) \<and> away_win_prob (predict self home away) \<le> 1"
    if "0 \<le> expected_home_goals (predict self home away)"
      "0 \<le> expected_away_goals (predict self home away)"
      "\<forall>i j. 0 \<le> tau_correction self i j (expected_home_goals (predict self home away))
                (expected_away_goals (predict self home away))"
  proof -
    have nn: "0 \<le> hw \<and> 0 \<le> dr \<and> 0 \<le> aw"
      using buckets_nonneg[OF that g] .
    then show ?thesis using r(1) by (simp add: r(2-4))
  qed
  show ?thesis using sum1 rng by blast
qed

theorem predict_probabilities_witness:
  "fit default_model sample_matches None = Inr sample_model \<and>
   0 \<le> expected_home_goals (predict sample_model ''A'' ''B'') \<and>
   0 \<le> expected_away_goals (predict sample_model ''A'' ''B'') \<and>
   (\<forall>i j. 0 \<le> tau_correction sample_model i j (expected_home_goals (predict sample_model ''A'' ''B''))
             (expected_away_goals (predict sample_model ''A'' ''B''))) \<and>
   home_win_prob (predict sample_model ''A'' ''B'') + draw_prob (predict sample_model ''A'' ''B'') +
     away_win_prob (predict sample_model ''A'' ''B'') = 1 \<and>
   0 \<le> home_win_prob (predict sample_model ''A'' ''B'') \<and> home_win_prob (predict sample_model ''A'' ''B'') \<le> 1 \<and>
   0 \<le> draw_prob (predict sample_model ''A'' ''B'') \<and> draw_prob (predict sample_model ''A'' ''B'') \<le> 1 \<and>
   0 \<le> away_win_prob (predict sample_model ''A'' ''B'') \<and> away_win_prob (predict sample_model ''A'' ''B'') \<le> 1"
  using predict_probabilities [of sample_model "''A''" "''B''"] fit_sample sample_tau
  by (simp add: sample_expected)

text \<open>
  C1 fails as stated: fitted on the two lopsided matches with the default parameters, the
  model gives A against B the expected goals 18.772 and 0.04, the tau correction at (0,1)
  is negative, and so is the away-win probability.
\<close>

theorem predict_negative_probability:
  "fit default_model lopsided_matches None = Inr lopsided_model \<and>
   away_win_prob (predict lopsided_model ''A'' ''B'') < 0"
proof -
  obtain hw dr aw where g: "score_grid lopsided_model (expected_home_goals (predict lopsided_model ''A'' ''B''))
     (expected_away_goals (predict lopsided_model ''A'' ''B'')) 6 = (hw, dr, aw)"
    by (metis prod_cases3)
  have "aw = (\<Sum>i<7. \<Sum>j<7. if i < j then score_prob lopsided_model (4693 / 250) (1 / 25) i j else 0)"
    using g unfolding score_grid_sums lopsided_expected by (simp only: prod.inject eval_nat_numeral) 
  also have "\<dots> = exp (- (4693 / 250)) * exp (- (1 / 25)) *
      (\<Sum>i<7. \<Sum>j<7. if i < j then score_weight lopsided_model (4693 / 250) (1 / 25) i j else 0)"
    by (rule away_bucket_weight)
  also have "\<dots> < 0"
    by (intro mult_pos_neg mult_pos_pos exp_gt_zero lopsided_away_weight)
  finally have "aw < 0" .
  then have "away_win_prob (predict lopsided_model ''A'' ''B'') < 0"
    using predict_ratio[OF g] by (simp add: divide_neg_pos)
  then show ?thesis using fit_lopsided by simp
qed

text \<open>
  C4 (as amended). \<^verbatim>\<open>predict\<close> has no raising path. Its three probabilities are the
  output of the guarded normalisation of the three bucket sums: buckets whose total is
  not positive are returned as they are, buckets with a positive total are divided by it.
  The total of the grid up to 6 goals is positive for all real expected goals and every
  \<open>rho\<close>, so in exact arithmetic the first case does not arise.
\<close>

theorem predict_normalization:
  "(home_win_prob (predict self home away), draw_prob (predict self home away),
    away_win_prob (predict self home away)) =
     normalize_buckets (score_grid self (expected_home_goals (predict self home away))
       (expected_away_goals (predict self home away)) 6) \<and>
   (\<not> 0 < hw + dr + aw \<longrightarrow> normalize_buckets (hw, dr, aw) = (hw, dr, aw)) \<and>
   (0 < hw + dr + aw \<longrightarrow>
      normalize_buckets (hw, dr, aw) =
        (hw / (hw + dr + aw), dr / (hw + dr + aw), aw / (hw + dr + aw))) \<and>
   0 < bucket_total (score_grid self l m 6)"
  using predict_buckets [of self home away] total_pos [of self l m]
  by (simp add: normalize_buckets_def Let_def)

theorem predict_normalization_witness:
  "\<not> (0::real) < 0 + 0 + 0 \<and> normalize_buckets (0, 0, 0) = (0, 0, 0) \<and>
   (0::real) < 1 + 1 + 2 \<and> normalize_buckets (1, 1, 2) = (1 / 4, 1 / 4, 1 / 2) \<and>
   0 < bucket_total (score_grid sample_model (234 / 125) (16 / 25) 6) \<and>
   (home_win_prob (predict sample_model ''A'' ''B''), draw_prob (predict sample_model ''A'' ''B''),
    away_win_prob (predict sample_model ''A'' ''B'')) =
     normalize_buckets (score_grid sample_model (234 / 125) (16 / 25) 6)"
  using predict_normalization [of sample_model "''A''" "''B''" 0 0 0 "234 / 125" "16 / 25"]
    predict_normalization [of sample_model "''A''" "''B''" 1 1 2 "234 / 125" "16 / 25"]
  by (simp add: sample_expected)

text \<open>
  C4 fails as stated: when the three buckets sum to zero, the normalisation step returns
  the three zeros; nothing is raised.
\<close>

theorem degenerate_buckets_returned_unnormalized:
  "normalize_buckets (0, 0, 0) = (0, 0, 0)"
  by (simp add: normalize_buckets_def)

text \<open>
  C6. For every team that has no entry in the fitted ratings, \<^verbatim>\<open>predict\<close> uses attack 1
  and defence 1 for it and returns a prediction: \<^const>\<open>predict\<close> has no error result, so it
  never fails for an unseen team.
\<close>

theorem predict_unseen_team_defaults:
  "(map_of (team_attack self) home = None \<longrightarrow> home_attack (predict self home away) = 1) \<and>
   (map_of (team_defense self) home = None \<longrightarrow> home_defense (predict self home away) = 1) \<and>
   (map_of (team_attack self) away = None \<longrightarrow> away_attack (predict self home away) = 1) \<and>
   (map_of (team_defense self) away = None \<longrightarrow> away_defense (predict self home away) = 1) \<and>
   expected_home_goals (predict self home away) =
     home_attack (predict self home away) * (1 + home_advantage self) *
     away_defense (predict self home away) \<and>
   expected_away_goals (predict self home away) =
     away_attack (predict self home away) * home_defense (predict self home away)"
  by (simp add: predict_def dict_get_def Let_def split: prod.split)

theorem predict_unseen_team_defaults_witness:
  "map_of (team_attack (default_model\<lparr>team_attack := [(''A'', 2)], team_defense := [(''A'', 1 / 2)]\<rparr>))
     ''Team Z'' = None \<and>
   map_of (team_defense (default_model\<lparr>team_attack := [(''A'', 2)], team_defense := [(''A'', 1 / 2)]\<rparr>))
     ''Team Z'' = None \<and>
   away_attack (predict (default_model\<lparr>team_attack := [(''A'', 2)], team_defense := [(''A'', 1 / 2)]\<rparr>)
     ''A'' ''Team Z'') = 1 \<and>
   away_defense (predict (default_model\<lparr>team_attack := [(''A'', 2)], team_defense := [(''A'', 1 / 2)]\<rparr>)
     ''A'' ''Team Z'') = 1 \<and>
   expected_home_goals (predict (default_model\<lparr>team_attack := [(''A'', 2)], team_defense := [(''A'', 1 / 2)]\<rparr>)
     ''A'' ''Team Z'') = 13 / 5 \<and>
   expected_away_goals (predict (default_model\<lparr>team_attack := [(''A'', 2)], team_defense := [(''A'', 1 / 2)]\<rparr>)
     ''A'' ''Team Z'') = 1 / 2"
  using predict_unseen_team_defaults
    [of "default_model\<lparr>team_attack := [(''A'', 2)], team_defense := [(''A'', 1 / 2)]\<rparr>" "''Team Z''" "''A''"]
    predict_unseen_team_defaults
    [of "default_model\<lparr>team_attack := [(''A'', 2)], team_defense := [(''A'', 1 / 2)]\<rparr>" "''A''" "''Team Z''"]
  by (simp add: default_model_def DixonColesModel_init_def predict_def dict_get_def Let_def split: prod.split)

section \<open>Fitting\<close>

subsection \<open>The collected statistics\<close>

lemma weight_pos: "0 < time_decay_weight self d cd"
  by (simp add: time_decay_weight_def)

lemma distinct_init_team: "distinct (map fst st) \<Longrightarrow> distinct (map fst (init_team t st))"
  by (simp add: init_team_def distinct_update)

lemma distinct_add_stats: "distinct (map fst st) \<Longrightarrow> distinct (map fst (add_stats t a b c st))"
  by (simp add: add_stats_def distinct_map_entry)

lemma keys_init_team: "fst ` set (init_team t st) = insert t (fst ` set st)"
  by (auto simp: init_team_def dom_update map_of_eq_None_iff)

lemma keys_add_stats: "fst ` set (add_stats t a b c st) = fst ` set st"
  by (simp add: add_stats_def dom_map_entry)

lemma keys_fit_match:
  "fst ` set (fit_match self cd (f, home, away, hg, ag, d) st) = insert home (insert away (fst ` set st))"
  by (auto simp: fit_match_def Let_def keys_add_stats keys_init_team)

lemma distinct_fit_match:
  "distinct (map fst st) \<Longrightarrow> distinct (map fst (fit_match self cd mt st))"
  by (cases mt) (simp add: fit_match_def Let_def distinct_add_stats distinct_init_team split: prod.split)

lemma map_of_init_team:
  "map_of (init_team t st) = (if map_of st t = None then (map_of st)(t \<mapsto> zero_stat) else map_of st)"
  by (simp add: init_team_def update_conv')

lemma map_of_add_stats:
  "map_of (add_stats t a b c st) =
     (map_of st)(t := map_option (\<lambda>s. \<lparr>goals_scored = goals_scored s + a,
             goals_conceded = goals_conceded s + b,
             weighted_matches = weighted_matches s + c\<rparr>) (map_of st t))"
  by (simp add: add_stats_def map_of_map_entry map_option_case)

lemma stats_inv_fit_match:
  assumes "stats_inv st"
  shows "stats_inv (fit_match self cd mt st)"
proof -
  obtain f home away hg ag d where mt: "mt = (f, home, away, hg, ag, d)"
    by (cases mt) auto
  have w: "0 < time_decay_weight self d cd" by (rule weight_pos)
  have ok: "\<And>t s. map_of st t = Some s \<Longrightarrow> stat_ok s"
    using assms by (simp add: stats_inv_def)
  have "stat_ok s" if "map_of (fit_match self cd mt st) t = Some s" for t s
    using that w ok
    by (auto simp: mt fit_match_def Let_def map_of_add_stats map_of_init_team stat_ok_def zero_stat_def
        split: if_splits option.splits dest!: ok)
  then show ?thesis
    using assms distinct_fit_match[of st self cd mt] by (simp add: stats_inv_def)
qed

lemma fold_fit_match_inv:
  "stats_inv st \<Longrightarrow> stats_inv (fold (fit_match self cd) ms st)"
  by (induction ms arbitrary: st) (simp_all add: stats_inv_fit_match)

lemma stats_inv_Nil: "stats_inv []"
  by (simp add: stats_inv_def)

lemma keys_fold_fit_match:
  "fst ` set (fold (fit_match self cd) ms st) = set (match_teams ms) \<union> fst ` set st"
proof (induction ms arbitrary: st)
  case Nil
  then show ?case by (simp add: match_teams_def)
next
  case (Cons mt ms)
  obtain f home away hg ag d where mt: "mt = (f, home, away, hg, ag, d)"
    by (cases mt) auto
  show ?case
    using Cons.IH[of "fit_match self cd mt st"]
    by (auto simp: mt keys_fit_match match_teams_def)
qed

lemma sum_map_entry:
  "(\<Sum>(t, s)\<leftarrow>AList.map_entry k f st. g s) =
   (\<Sum>(t, s)\<leftarrow>st. g s) + (case map_of st k of None \<Rightarrow> 0 | Some v \<Rightarrow> g (f v) - g v)"
  for g :: "'v \<Rightarrow> real"
  by (induction st) auto

lemma sum_update:
  "(\<Sum>(t, s)\<leftarrow>AList.update k v st. g s) =
   (\<Sum>(t, s)\<leftarrow>st. g s) + g v - (case map_of st k of None \<Rightarrow> 0 | Some v' \<Rightarrow> g v')"
  for g :: "'v \<Rightarrow> real"
  by (induction st) auto

lemma sum_init_team:
  "g zero_stat = 0 \<Longrightarrow> (\<Sum>(t, s)\<leftarrow>init_team k st. g s) = (\<Sum>(t, s)\<leftarrow>st. g s)"
  for g :: "team_stat \<Rightarrow> real"
  by (simp add: init_team_def sum_update)

lemma map_of_init_team_same: "map_of (init_team t st) t \<noteq> None"
  by (simp add: map_of_init_team)

lemma sum_scored_fit_match:
  "(\<Sum>(t, s)\<leftarrow>fit_match self cd (f, home, away, hg, ag, d) st. goals_scored s) =
   (\<Sum>(t, s)\<leftarrow>st. goals_scored s) + (real hg + real ag) * time_decay_weight self d cd"
  by (auto simp: fit_match_def Let_def add_stats_def sum_map_entry sum_init_team zero_stat_def
       map_of_map_entry map_of_init_team algebra_simps split: option.splits)

lemma sum_weight_fit_match:
  "(\<Sum>(t, s)\<leftarrow>fit_match self cd (f, home, away, hg, ag, d) st. weighted_matches s) =
   (\<Sum>(t, s)\<leftarrow>st. weighted_matches s) + 2 * time_decay_weight self d cd"
  by (auto simp: fit_match_def Let_def add_stats_def sum_map_entry sum_init_team zero_stat_def
       map_of_map_entry map_of_init_team algebra_simps split: option.splits)

lemma sum_scored_fold:
  "(\<Sum>(t, s)\<leftarrow>fold (fit_match self cd) ms st. goals_scored s) =
   (\<Sum>(t, s)\<leftarrow>st. goals_scored s) + weighted_goals self cd ms"
proof (induction ms arbitrary: st)
  case Nil
  then show ?case by (simp add: weighted_goals_def)
next
  case (Cons mt ms)
  obtain f home away hg ag d where mt: "mt = (f, home, away, hg, ag, d)"
    by (cases mt) auto
  show ?case
    using Cons.IH[of "fit_match self cd mt st"]
    by (simp add: mt sum_scored_fit_match weighted_goals_def)
qed

lemma weighted_goals_nonneg: "0 \<le> weighted_goals self cd ms"
  unfolding weighted_goals_def
  by (induction ms) (auto simp: weight_pos less_imp_le)

lemma weighted_goals_zero_iff: "weighted_goals self cd ms = 0 \<longleftrightarrow> no_goals ms"
proof (induction ms)
  case Nil
  then show ?case by (simp add: weighted_goals_def no_goals_def)
next
  case (Cons mt ms)
  obtain f home away hg ag d where mt: "mt = (f, home, away, hg, ag, d)"
    by (cases mt) auto
  have w: "0 < time_decay_weight self d cd" by (rule weight_pos)
  have split: "weighted_goals self cd (mt # ms) =
      (real hg + real ag) * time_decay_weight self d cd + weighted_goals self cd ms"
    by (simp add: mt weighted_goals_def)
  have nn: "0 \<le> (real hg + real ag) * time_decay_weight self d cd"
    using w by simp
  have "weighted_goals self cd (mt # ms) = 0 \<longleftrightarrow>
      (real hg + real ag) * time_decay_weight self d cd = 0 \<and> weighted_goals self cd ms = 0"
    unfolding split using nn weighted_goals_nonneg[of self cd ms]
    by (simp add: add_nonneg_eq_0_iff)
  also have "\<dots> \<longleftrightarrow> (hg = 0 \<and> ag = 0) \<and> no_goals ms"
    using w Cons.IH by auto
  finally show ?case by (simp add: mt no_goals_def)
qed

lemma sum_weight_fold_pos:
  "0 \<le> (\<Sum>(t, s)\<leftarrow>st. weighted_matches s) \<Longrightarrow> ms \<noteq> [] \<Longrightarrow>
   0 < (\<Sum>(t, s)\<leftarrow>fold (fit_match self cd) ms st. weighted_matches s)"
proof (induction ms arbitrary: st)
  case Nil
  then show ?case by simp
next
  case (Cons mt ms)
  obtain f home away hg ag d where mt: "mt = (f, home, away, hg, ag, d)"
    by (cases mt) auto
  have w: "0 < time_decay_weight self d cd" by (rule weight_pos)
  have pos: "0 < (\<Sum>(t, s)\<leftarrow>fit_match self cd mt st. weighted_matches s)"
    using Cons.prems(1) w by (simp add: mt sum_weight_fit_match)
  show ?case
  proof (cases "ms = []")
    case True
    then show ?thesis using pos by simp
  next
    case False
    then show ?thesis using Cons.IH[of "fit_match self cd mt st"] pos by simp
  qed
qed

text \<open>The league average of the collected statistics.\<close>

lemma league_avg_fold:
  assumes "ms \<noteq> []"
  shows "league_avg (fold (fit_match self cd) ms []) =
     weighted_goals self cd ms / (\<Sum>(t, s)\<leftarrow>fold (fit_match self cd) ms []. weighted_matches s)"
    and "league_avg (fold (fit_match self cd) ms []) = 0 \<longleftrightarrow> no_goals ms"
    and "0 \<le> league_avg (fold (fit_match self cd) ms [])"
proof -
  have pos: "0 < (\<Sum>(t, s)\<leftarrow>fold (fit_match self cd) ms []. weighted_matches s)"
    using sum_weight_fold_pos[of "[]" ms self cd] assms by simp
  show eq: "league_avg (fold (fit_match self cd) ms []) =
     weighted_goals self cd ms / (\<Sum>(t, s)\<leftarrow>fold (fit_match self cd) ms []. weighted_matches s)"
    using pos sum_scored_fold[of self cd ms "[]"] by (simp add: league_avg_def Let_def)
  show "league_avg (fold (fit_match self cd) ms []) = 0 \<longleftrightarrow> no_goals ms"
    unfolding eq using pos weighted_goals_zero_iff[of self cd ms] by simp
  show "0 \<le> league_avg (fold (fit_match self cd) ms [])"
    unfolding eq using pos weighted_goals_nonneg[of self cd ms] by simp
qed

lemma upd_all_simps [simp]:
  "upd_all [] al = al"
  "upd_all ((k, v) # kvs) al = upd_all kvs (AList.update k v al)"
  by (simp_all add: upd_all_def)

lemma fit_ratings_zero:
  "st \<noteq> [] \<Longrightarrow> (\<forall>(t, s)\<in>set st. 0 < weighted_matches s) \<Longrightarrow>
   fit_ratings 0 st (att, dfn) = Inl ZeroDivisionError"
  by (cases st) auto

lemma fit_ratings_ok:
  "la \<noteq> 0 \<Longrightarrow> (\<forall>(t, s)\<in>set st. 0 < weighted_matches s) \<Longrightarrow>
   fit_ratings la st (att, dfn) =
     Inr (upd_all (raw_attack la st) att, upd_all (raw_defense la st) dfn)"
  by (induction st arbitrary: att dfn) (auto simp: raw_attack_def raw_defense_def Let_def)



lemma keys_upd_all: "fst ` set (upd_all kvs al) = fst ` set al \<union> fst ` set kvs"
proof (induction kvs arbitrary: al)
  case Nil
  then show ?case by simp
next
  case (Cons kv kvs)
  obtain k v where kv: "kv = (k, v)" by (cases kv)
  have "fst ` set (upd_all (kv # kvs) al) = fst ` set (AList.update k v al) \<union> fst ` set kvs"
    using Cons.IH[of "AList.update k v al"] by (simp add: kv)
  also have "\<dots> = fst ` set al \<union> fst ` set (kv # kvs)"
    by (simp add: dom_update kv Un_commute insert_commute Un_left_commute)
  finally show ?case .
qed

lemma map_other_keys:
  "t \<notin> fst ` set al \<Longrightarrow> map (\<lambda>(k, v). (k, if k = t then f v else v)) al = al"
  by (induction al) auto

lemma map_entry_as_map:
  "distinct (map fst al) \<Longrightarrow>
   AList.map_entry t f al = map (\<lambda>(k, v). (k, if k = t then f v else v)) al"
  by (induction al) (auto simp: map_other_keys)

lemma fold_map_entry_as_map:
  "distinct ks \<Longrightarrow> distinct (map fst al) \<Longrightarrow>
   fold (\<lambda>t. AList.map_entry t f) ks al = map (\<lambda>(k, v). (k, if k \<in> set ks then f v else v)) al"
proof (induction ks arbitrary: al)
  case Nil
  then show ?case by (simp add: case_prod_unfold)
next
  case (Cons t ks)
  have d: "distinct (map fst (AList.map_entry t f al))"
    using Cons.prems(2) by (rule distinct_map_entry)
  have "fold (\<lambda>t. AList.map_entry t f) (t # ks) al =
      map (\<lambda>(k, v). (k, if k \<in> set ks then f v else v)) (AList.map_entry t f al)"
    using Cons.IH[OF _ d] Cons.prems(1) by simp
  also have "\<dots> = map (\<lambda>(k, v). (k, if k \<in> set (t # ks) then f v else v)) al"
    using Cons.prems(1) by (auto simp: map_entry_as_map[OF Cons.prems(2)])
  finally show ?case .
qed

lemma normalize_loop_ok:
  "avg \<noteq> 0 \<Longrightarrow> set ks \<subseteq> fst ` set dfn \<Longrightarrow>
   normalize_loop avg ks (att, dfn) =
     Inr (fold (\<lambda>t. AList.map_entry t (\<lambda>a. a / avg)) ks att,
          fold (\<lambda>t. AList.map_entry t (\<lambda>d. d / avg)) ks dfn)"
proof (induction ks arbitrary: att dfn)
  case Nil
  then show ?case by simp
next
  case (Cons t ks)
  from Cons.prems(2) obtain d where d: "map_of dfn t = Some d"
    by (cases "map_of dfn t") (auto simp: map_of_eq_None_iff)
  have "set ks \<subseteq> fst ` set (AList.map_entry t (\<lambda>d. d / avg) dfn)"
    using Cons.prems(2) by (simp add: dom_map_entry)
  then show ?case
    using Cons.IH[of "AList.map_entry t (\<lambda>d. d / avg) dfn" "AList.map_entry t (\<lambda>a. a / avg) att"]
      Cons.prems(1) d by simp
qed

lemma normalize_loop_zero:
  "ks \<noteq> [] \<Longrightarrow> normalize_loop 0 ks (att, dfn) = Inl NonFinite"
  by (cases ks) auto

lemma normalize_loop_scale:
  assumes "avg \<noteq> 0" "distinct (map fst att)" "distinct (map fst dfn)"
    and "fst ` set att = fst ` set dfn"
  shows "normalize_loop avg (map fst att) (att, dfn) =
     Inr (scale_ratings avg att, scale_ratings avg dfn)"
proof -
  have sub: "set (map fst att) \<subseteq> fst ` set dfn" using assms(4) by auto
  have a: "fold (\<lambda>t. AList.map_entry t (\<lambda>a. a / avg)) (map fst att) att = scale_ratings avg att"
    unfolding fold_map_entry_as_map[OF assms(2) assms(2)] scale_ratings_def
    by (rule map_cong) force+
  have b: "fold (\<lambda>t. AList.map_entry t (\<lambda>d. d / avg)) (map fst att) dfn = scale_ratings avg dfn"
    unfolding fold_map_entry_as_map[OF assms(2) assms(3)] scale_ratings_def
    using assms(4) by (intro map_cong) force+
  show ?thesis
    unfolding normalize_loop_ok[OF assms(1) sub] a b ..
qed

lemma update_new_key: "k \<notin> fst ` set al \<Longrightarrow> AList.update k v al = al @ [(k, v)]"
  by (induction al) auto

lemma upd_all_append:
  "distinct (map fst kvs) \<Longrightarrow> fst ` set kvs \<inter> fst ` set al = {} \<Longrightarrow> upd_all kvs al = al @ kvs"
proof (induction kvs arbitrary: al)
  case Nil
  then show ?case by simp
next
  case (Cons kv kvs)
  obtain k v where kv: "kv = (k, v)" by (cases kv)
  have k: "k \<notin> fst ` set al" using Cons.prems(2) by (auto simp: kv)
  have "fst ` set kvs \<inter> fst ` set (al @ [(k, v)]) = {}"
    using Cons.prems by (auto simp: kv)
  then show ?case
    using Cons.IH[of "al @ [(k, v)]"] Cons.prems(1) by (simp add: kv update_new_key[OF k])
qed

lemma upd_all_fresh: "distinct (map fst kvs) \<Longrightarrow> upd_all kvs [] = kvs"
  using upd_all_append[of kvs "[]"] by simp

lemma keys_raw [simp]:
  "map fst (raw_attack la st) = map fst st" "map fst (raw_defense la st) = map fst st"
  by (simp_all add: raw_attack_def raw_defense_def case_prod_unfold)

lemma keys_raw_set:
  "fst ` set (raw_attack la st) = fst ` set st" "fst ` set (raw_defense la st) = fst ` set st"
  by (simp_all only: set_map[symmetric] keys_raw)


lemma stats_inv_guard:
  "stats_inv st \<Longrightarrow> \<forall>(t, s)\<in>set st. 0 < weighted_matches s"
  by (auto simp: stats_inv_def stat_ok_def)

text \<open>What \<^const>\<open>fit\<close> does once the reference date is known, for any model.\<close>

lemma fit_no_goals:
  assumes "reference_date ms d = Inr cd" "ms \<noteq> []" "no_goals ms"
  shows "fit self ms d = Inl ZeroDivisionError"
proof -
  let ?st = "fold (fit_match self cd) ms []"
  have inv: "stats_inv ?st" by (simp add: fold_fit_match_inv stats_inv_Nil)
  have "set (match_teams ms) \<noteq> {}"
    using assms(2) by (cases ms) (auto simp: match_teams_def)
  then have ne: "?st \<noteq> []"
    using keys_fold_fit_match[of self cd ms "[]"] by auto
  have la: "league_avg ?st = 0"
    using league_avg_fold(2)[OF assms(2)] assms(3) by simp
  show ?thesis
    using fit_ratings_zero[OF ne stats_inv_guard[OF inv]] la assms(1)
    by (simp add: fit_def Let_def)
qed

lemma fit_with_goals:
  assumes "reference_date ms d = Inr cd" "ms = [] \<or> \<not> no_goals ms"
  shows "fit self ms d =
     (let st = fold (fit_match self cd) ms [];
          att = upd_all (raw_attack (league_avg st) st) (team_attack self);
          dfn = upd_all (raw_defense (league_avg st) st) (team_defense self)
      in case normalize_loop (mean_attack att) (map fst att) (att, dfn) of
           Inl e \<Rightarrow> Inl e
         | Inr (att', dfn') \<Rightarrow>
             Inr (self\<lparr>team_attack := att', team_defense := dfn',
                       teams := fold add_teams ms (teams self)\<rparr>))"
proof (cases "ms = []")
  case True
  show ?thesis
    using assms(1) unfolding True
    by (simp add: fit_def Let_def raw_attack_def raw_defense_def)
next
  case False
  let ?st = "fold (fit_match self cd) ms []"
  have inv: "stats_inv ?st" by (simp add: fold_fit_match_inv stats_inv_Nil)
  have la: "league_avg ?st \<noteq> 0"
    using league_avg_fold(2)[OF False] assms(2) False by simp
  show ?thesis
    using fit_ratings_ok[OF la stats_inv_guard[OF inv]] assms(1)
    by (simp add: fit_def Let_def)
qed

lemma sum_list_pos_real:
  fixes xs :: "real list"
  assumes "\<forall>x\<in>set xs. 0 \<le> x" "\<exists>x\<in>set xs. 0 < x"
  shows "0 < sum_list xs"
  using assms
proof (induction xs)
  case Nil
  then show ?case by simp
next
  case (Cons x xs)
  then have x: "0 \<le> x" and rest: "0 \<le> sum_list xs"
    by (auto intro: sum_list_nonneg)
  show ?case
  proof (cases "0 < x")
    case True
    then show ?thesis using rest by simp
  next
    case False
    then have "\<exists>y\<in>set xs. 0 < y" using Cons.prems(2) by auto
    then have "0 < sum_list xs" using Cons.IH Cons.prems(1) by simp
    then show ?thesis using x by simp
  qed
qed

lemma mean_raw_attack_pos:
  assumes "stats_inv st" "0 < la" "0 < (\<Sum>(t, s)\<leftarrow>st. goals_scored s)"
  shows "0 < mean_attack (raw_attack la st)"
proof -
  have ok: "\<And>t s. (t, s) \<in> set st \<Longrightarrow> stat_ok s"
    using assms(1) by (auto simp: stats_inv_def)
  have ne: "st \<noteq> []" using assms(3) by auto
  have "\<exists>(t, s)\<in>set st. 0 < goals_scored s"
  proof (rule ccontr)
    assume "\<not> (\<exists>(t, s)\<in>set st. 0 < goals_scored s)"
    then have "\<forall>x\<in>set (map (\<lambda>(t, s). goals_scored s) st). x \<le> 0" by (auto simp: not_less)
    then have "sum_list (map (\<lambda>(t, s). goals_scored s) st) \<le> 0" by (intro sum_list_nonpos) auto
    then show False using assms(3) by simp
  qed
  then obtain t s where ts: "(t, s) \<in> set st" "0 < goals_scored s" by auto
  have "0 \<le> goals_scored s' / weighted_matches s' / la" if "(t', s') \<in> set st" for t' s'
    using ok[OF that] assms(2) by (simp add: stat_ok_def)
  then have nn: "\<forall>x\<in>set (map snd (raw_attack la st)). 0 \<le> x"
    by (auto simp: raw_attack_def simp del: divide_divide_eq_left)
  have "goals_scored s / weighted_matches s / la \<in> set (map snd (raw_attack la st))"
    using ts(1) by (force simp: raw_attack_def)
  moreover have "0 < goals_scored s / weighted_matches s / la"
    using ts ok[OF ts(1)] assms(2) by (simp add: stat_ok_def)
  ultimately have "\<exists>x\<in>set (map snd (raw_attack la st)). 0 < x" by blast
  then have "0 < sum_list (map snd (raw_attack la st))"
    using nn by (intro sum_list_pos_real) auto
  then show ?thesis
    using ne by (simp add: mean_attack_def raw_attack_def)
qed

text \<open>The result of \<^const>\<open>fit\<close> on a model without ratings.\<close>

lemma fit_fresh:
  assumes "reference_date ms d = Inr cd" "ms = [] \<or> \<not> no_goals ms"
    and "team_attack self = []" "team_defense self = []"
  shows "fit self ms d =
     (let st = fold (fit_match self cd) ms [];
          att = raw_attack (league_avg st) st;
          dfn = raw_defense (league_avg st) st
      in Inr (self\<lparr>team_attack := scale_ratings (mean_attack att) att,
                   team_defense := scale_ratings (mean_attack att) dfn,
                   teams := fold add_teams ms (teams self)\<rparr>))"
proof (cases "ms = []")
  case True
  then show ?thesis
    using assms(1,3,4)
    by (simp add: fit_def Let_def raw_attack_def raw_defense_def scale_ratings_def mean_attack_def)
next
  case False
  let ?st = "fold (fit_match self cd) ms []"
  let ?la = "league_avg ?st"
  have inv: "stats_inv ?st" by (simp add: fold_fit_match_inv stats_inv_Nil)
  then have dist: "distinct (map fst ?st)" by (simp add: stats_inv_def)
  have la: "0 < ?la"
    using league_avg_fold(2,3)[OF False, of self cd] assms(2) False by simp
  have goals: "0 < (\<Sum>(t, s)\<leftarrow>?st. goals_scored s)"
    using sum_scored_fold[of self cd ms "[]"] weighted_goals_zero_iff[of self cd ms]
      weighted_goals_nonneg[of self cd ms] assms(2) False by simp
  have avg: "mean_attack (raw_attack ?la ?st) \<noteq> 0"
    using mean_raw_attack_pos[OF inv la goals] by simp
  have att: "upd_all (raw_attack ?la ?st) [] = raw_attack ?la ?st"
    and dfn: "upd_all (raw_defense ?la ?st) [] = raw_defense ?la ?st"
    using dist by (simp_all add: upd_all_fresh)
  have norm: "normalize_loop (mean_attack (raw_attack ?la ?st)) (map fst (raw_attack ?la ?st))
      (raw_attack ?la ?st, raw_defense ?la ?st) =
     Inr (scale_ratings (mean_attack (raw_attack ?la ?st)) (raw_attack ?la ?st),
          scale_ratings (mean_attack (raw_attack ?la ?st)) (raw_defense ?la ?st))"
    using dist by (intro normalize_loop_scale[OF avg]) (simp_all add: keys_raw_set)
  show ?thesis
    unfolding fit_with_goals[OF assms(1,2)] Let_def assms(3,4) att dfn norm
    using dist by simp
qed

subsection \<open>When fit returns\<close>

lemma reference_date_cases:
  "reference_date ms d = Inl e \<longleftrightarrow> ms = [] \<and> d = None \<and> e = ValueError"
  by (auto simp: reference_date_def split: option.splits list.splits)

lemma reference_date_ex:
  "ms \<noteq> [] \<or> d \<noteq> None \<Longrightarrow> \<exists>cd. reference_date ms d = Inr cd"
  by (cases "reference_date ms d") (auto simp: reference_date_cases)

lemma fit_empty_no_date: "fit self [] None = Inl ValueError"
  by (simp add: fit_def reference_date_def)

lemma fit_success_cases:
  assumes "fit self ms d = Inr m'"
  shows "\<exists>cd. reference_date ms d = Inr cd \<and> (ms = [] \<or> \<not> no_goals ms)"
proof -
  have "ms \<noteq> [] \<or> d \<noteq> None"
  proof (rule ccontr)
    assume "\<not> (ms \<noteq> [] \<or> d \<noteq> None)"
    then have "fit self ms d = Inl ValueError" by (simp add: fit_empty_no_date)
    then show False using assms by simp
  qed
  then obtain cd where cd: "reference_date ms d = Inr cd"
    using reference_date_ex[of ms d] by auto
  have "ms = [] \<or> \<not> no_goals ms"
    using fit_no_goals[OF cd, of self] assms by auto
  then show ?thesis using cd by blast
qed

lemma fresh_init [simp]:
  "team_attack (DixonColesModel_init x h r) = []" "team_defense (DixonColesModel_init x h r) = []"
  by (simp_all add: DixonColesModel_init_def)

text \<open>
  C2 (as amended). \<^verbatim>\<open>fit\<close> has no minimum-size check and no
  DataInsufficientError: on a model without ratings it returns for every non-empty match
  list in which a goal was scored, whatever its length. The minimum of 100 is enforced
  by \<^verbatim>\<open>get_training_data\<close>, which returns \<^verbatim>\<open>None\<close> exactly when the query gave fewer
  than 100 rows.
\<close>

theorem fit_has_no_size_check:
  "(get_training_data rows = None \<longleftrightarrow> length rows < 100) \<and>
   (ms \<noteq> [] \<and> \<not> no_goals ms \<longrightarrow> \<not> isl (fit (DixonColesModel_init x h r) ms d))"
proof -
  have "\<not> isl (fit (DixonColesModel_init x h r) ms d)" if ne: "ms \<noteq> []" and ng: "\<not> no_goals ms"
  proof -
    obtain cd where cd: "reference_date ms d = Inr cd"
      using reference_date_ex[of ms d] ne by auto
    have g: "ms = [] \<or> \<not> no_goals ms" using ng by simp
    show ?thesis
      by (simp add: fit_fresh[OF cd g fresh_init] Let_def)
  qed
  then show ?thesis by (simp add: get_training_data_def)
qed

lemma fifty_props: "length fifty_matches = 50" "fifty_matches \<noteq> []" "\<not> no_goals fifty_matches"
  by (auto simp: fifty_matches_def no_goals_def list_all_iff intro: exI[of _ 0])

theorem fit_has_no_size_check_witness:
  "fifty_matches \<noteq> [] \<and> \<not> no_goals fifty_matches \<and> length fifty_matches < 100 \<and>
   get_training_data fifty_matches = None \<and>
   \<not> isl (fit (DixonColesModel_init (65 / 10000) (3 / 10) (- (13 / 100))) fifty_matches None)"
  using fit_has_no_size_check [of fifty_matches fifty_matches "65 / 10000" "3 / 10" "- (13 / 100)" None]
  by (simp add: fifty_props)

text \<open>
  C2 fails as stated: \<^verbatim>\<open>fit\<close> with the default parameters returns on fifty matches.
\<close>

theorem fit_accepts_fifty_matches:
  "length fifty_matches = 50 \<and> \<not> isl (fit default_model fifty_matches None)"
proof -
  obtain cd where cd: "reference_date fifty_matches None = Inr cd"
    using reference_date_ex[of fifty_matches None] fifty_props(2) by auto
  have g: "fifty_matches = [] \<or> \<not> no_goals fifty_matches" using fifty_props(3) by simp
  have "\<not> isl (fit default_model fifty_matches None)"
    unfolding default_model_def by (simp add: fit_fresh[OF cd g fresh_init] Let_def)
  then show ?thesis using fifty_props(1) by simp
qed



subsection \<open>The mean attack after fitting\<close>

lemma scale_ratings_Nil [simp]: "scale_ratings avg al = [] \<longleftrightarrow> al = []"
  by (simp add: scale_ratings_def)

lemma raw_attack_Nil [simp]: "raw_attack la st = [] \<longleftrightarrow> st = []"
  by (simp add: raw_attack_def)

lemma length_scale [simp]: "length (scale_ratings avg al) = length al"
  by (simp add: scale_ratings_def)





subsection \<open>Every team of the match list is rated\<close>

lemma normalize_loop_keys:
  "normalize_loop avg ks (att, dfn) = Inr (a, b) \<Longrightarrow>
   fst ` set a = fst ` set att \<and> fst ` set b = fst ` set dfn"
proof (induction ks arbitrary: att dfn)
  case Nil
  then show ?case by simp
next
  case (Cons t ks)
  from Cons.prems obtain d where d: "map_of dfn t = Some d" and avg: "avg \<noteq> 0"
    by (auto split: if_splits option.splits)
  have "normalize_loop avg ks
      (AList.map_entry t (\<lambda>a. a / avg) att, AList.map_entry t (\<lambda>d. d / avg) dfn) = Inr (a, b)"
    using Cons.prems d avg by simp
  from Cons.IH[OF this] show ?case by (simp add: dom_map_entry)
qed

lemma fit_keys:
  assumes "fit self ms d = Inr m'"
  shows "set (match_teams ms) \<subseteq> fst ` set (team_attack m')"
    and "set (match_teams ms) \<subseteq> fst ` set (team_defense m')"
proof -
  obtain cd where cd: "reference_date ms d = Inr cd" and g: "ms = [] \<or> \<not> no_goals ms"
    using fit_success_cases[OF assms] by blast
  let ?st = "fold (fit_match self cd) ms []"
  let ?att = "upd_all (raw_attack (league_avg ?st) ?st) (team_attack self)"
  let ?dfn = "upd_all (raw_defense (league_avg ?st) ?st) (team_defense self)"
  from assms obtain a b where
    n: "normalize_loop (mean_attack ?att) (map fst ?att) (?att, ?dfn) = Inr (a, b)"
    and m': "m' = self\<lparr>team_attack := a, team_defense := b,
                       teams := fold add_teams ms (teams self)\<rparr>"
    unfolding fit_with_goals[OF cd g] Let_def
    by (auto split: sum.splits)
  have keys: "fst ` set ?st = set (match_teams ms)"
    using keys_fold_fit_match[of self cd ms "[]"] by simp
  have "fst ` set a = fst ` set ?att" "fst ` set b = fst ` set ?dfn"
    using normalize_loop_keys[OF n] by simp_all
  then show "set (match_teams ms) \<subseteq> fst ` set (team_attack m')"
    and "set (match_teams ms) \<subseteq> fst ` set (team_defense m')"
    using keys by (auto simp: m' keys_upd_all keys_raw_set)
qed

text \<open>
  C10 (as amended). For every match list, every \<open>xi\<close> and every reference date, each
  entry of \<^verbatim>\<open>team_stats\<close> has a positive weighted match count, so the guard of the rating
  loop is never false, and the entries are exactly the teams that appear as home or away;
  whenever \<^verbatim>\<open>fit\<close> returns, each of these teams has an attack and a defence rating.
\<close>

theorem fit_rates_every_team:
  "(\<forall>(t, s)\<in>set (fold (fit_match self cd) ms []). 0 < weighted_matches s) \<and>
   fst ` set (fold (fit_match self cd) ms []) = set (match_teams ms) \<and>
   (fit self ms d = Inr m' \<and> t \<in> set (match_teams ms) \<longrightarrow>
      map_of (team_attack m') t \<noteq> None \<and> map_of (team_defense m') t \<noteq> None)"
proof -
  have inv: "stats_inv (fold (fit_match self cd) ms [])"
    by (simp add: fold_fit_match_inv stats_inv_Nil)
  have keys: "fst ` set (fold (fit_match self cd) ms []) = set (match_teams ms)"
    using keys_fold_fit_match[of self cd ms "[]"] by simp
  have "map_of (team_attack m') t \<noteq> None \<and> map_of (team_defense m') t \<noteq> None"
    if ok: "fit self ms d = Inr m'" and t: "t \<in> set (match_teams ms)"
    using fit_keys[OF ok] t by (auto simp: map_of_eq_None_iff)
  then show ?thesis
    using stats_inv_guard[OF inv] keys by blast
qed

theorem fit_rates_every_team_witness:
  "fit default_model sample_matches None = Inr sample_model \<and>
   ''B'' \<in> set (match_teams sample_matches) \<and>
   map_of (team_attack sample_model) ''B'' = Some (4 / 5) \<and>
   map_of (team_defense sample_model) ''B'' = Some (6 / 5) \<and>
   fst ` set (fold (fit_match default_model 0) sample_matches []) = {''A'', ''B''} \<and>
   0 < weighted_matches (the (map_of (fold (fit_match default_model 0) sample_matches []) ''B''))"
  using fit_rates_every_team [of default_model 0 sample_matches None sample_model "''B''"] fit_sample
  by (simp add: sample_matches_def sample_model_def match_teams_def fit_match_def init_team_def
      add_stats_def zero_stat_def time_decay_weight_def insert_commute)

text \<open>
  C10 fails as stated: on a non-empty match list without a goal the league average is 0,
  \<^verbatim>\<open>fit\<close> raises ZeroDivisionError at the first team, and no team is rated.
\<close>

theorem fit_goalless_raises:
  "goalless_matches \<noteq> [] \<and> fit default_model goalless_matches None = Inl ZeroDivisionError"
  by (simp add: goalless_matches_def fit_eval default_model_def DixonColesModel_init_def)

subsection \<open>Fitting twice\<close>















lemma init_fields [simp]:
  "xi (DixonColesModel_init x h r) = x" "teams (DixonColesModel_init x h r) = {}"
  by (simp_all add: DixonColesModel_init_def)






section \<open>Home advantage\<close>


























end
